theory Spec2Isabelle
  imports Main
begin

section \<open>The sidebar body: FormsView and its headers (SidebarBody.tsx)\<close>

text \<open>
  A shallow embedding of \<^verbatim>\<open>SidebarBody.tsx\<close>. A component is a function from its props,
  the context values it reads and its hook state to the React element tree it returns. An
  event handler is a transformer of the state it can write to. The external collaborators
  (the forms registry, the CMS object, the sidebar context) are parameters.
\<close>

subsection \<open>External entities\<close>

text \<open>The part of final-form's \<^verbatim>\<open>FormState\<close> that the file reads.\<close>

record form_state =
  invalid :: bool

text \<open>\<^verbatim>\<open>finalForm\<close>: the handle whose \<^verbatim>\<open>getState()\<close> yields the current form state.\<close>

record final_form =
  getState :: form_state

text \<open>The form plugin. The field \<^verbatim>\<open>id\<close> is called \<open>form_id\<close> here.\<close>

record form =
  form_id :: string
  label :: string
  finalForm :: final_form

text \<open>
  The forms registry \<^verbatim>\<open>cms.plugins.getType<Form>('form')\<close>, seen through the two methods
  the file calls: \<^verbatim>\<open>all()\<close> and \<^verbatim>\<open>find(id)\<close>. Both results are taken as the registry
  gives them; \<^verbatim>\<open>undefined\<close> is \<open>None\<close>.
\<close>

record form_plugins =
  all_forms :: "form list"
  find_form :: "string \<Rightarrow> form option"

text \<open>A React component that this file only refers to, named by an identifier.\<close>

type_synonym component = string

text \<open>The form meta plugin: \<^verbatim>\<open>meta.name\<close> and \<^verbatim>\<open>meta.Component\<close>.\<close>

record form_meta_plugin =
  name :: string
  Component :: component

text \<open>
  The CMS object of \<^verbatim>\<open>useCMS()\<close>: the forms registry and the result of
  \<^verbatim>\<open>cms.plugins.all<FormMetaPlugin>('form:meta')\<close>.
\<close>

record cms =
  formPlugins :: form_plugins
  formMetas :: "form_meta_plugin list"

subsection \<open>State and callbacks\<close>

datatype alert = AlertError string

text \<open>
  What the handlers of this file write to: the \<^verbatim>\<open>useState\<close> cell of FormsView and the
  alerts that were dispatched through the CMS, oldest first.
\<close>

record ui_state =
  activeFormId :: string
  alerts :: "alert list"

type_synonym handler = "ui_state \<Rightarrow> ui_state"

text \<open>The initial value of the state cell: \<^verbatim>\<open>useState<string>('')\<close>.\<close>

definition initial_activeFormId :: string where
  "initial_activeFormId = ''''"

text \<open>The setter returned by \<^verbatim>\<open>useState\<close>.\<close>

definition setActiveFormId :: "string \<Rightarrow> handler" where
  "setActiveFormId i st = st\<lparr>activeFormId := i\<rparr>"

text \<open>
  Modelled from the spec: \<^verbatim>\<open>cms.alerts.error\<close> is not in this file; the spec names it as
  the CMS object's alert dispatch. Dispatching records the alert and touches nothing else.
\<close>

definition alerts_error :: "string \<Rightarrow> handler" where
  "alerts_error msg st = st\<lparr>alerts := alerts st @ [AlertError msg]\<rparr>"

text \<open>
  The values FormsView and FormHeader read from \<^verbatim>\<open>SidebarContext\<close>, with the imported
  constant \<^verbatim>\<open>navBreakpoint\<close> beside them. Widths are whole pixels.
\<close>

record sidebar_context =
  sidebarWidth :: int
  navBreakpoint :: int
  formIsPristine :: bool
  setFormIsPristine :: "bool \<Rightarrow> handler"

subsection \<open>React elements\<close>

type_synonym className = string

text \<open>
  The element tree a component returns. \<open>Falsy\<close> is a child that is \<^verbatim>\<open>false\<close> or
  \<^verbatim>\<open>undefined\<close> (React renders nothing for it), \<open>ElArray\<close> an array given as one child,
  \<open>Children\<close> the \<^verbatim>\<open>children\<close> prop, which stays opaque.
\<close>

datatype 'c element =
    Children 'c
  | Falsy
  | Text string
  | Fragment "'c element list"
  | KeyedFragment string "'c element list"
  | ElArray "'c element list"
  | Div className "'c element list"
  | Span className "'c element list"
  | Button className handler "'c element list"
  | FormList bool "form list" "string \<Rightarrow> handler"
  | FormWrapper bool bool "'c element list"
  | MultiformFormHeaderEl form "string \<Rightarrow> handler"
  | FormHeaderEl form
  | MetaComponent component
  | FormBuilder form "bool \<Rightarrow> handler"
  | FormStatus bool
  | IoMdClose className

subsection \<open>FormsView\<close>

text \<open>
  \<^verbatim>\<open>setSingleActiveForm\<close>: if there is only one form, make it the active form.
  The index 0 is in range under the guard.
\<close>

definition setSingleActiveForm :: "form_plugins \<Rightarrow> handler" where
  "setSingleActiveForm fp st =
     (if length (all_forms fp) = 1
      then setActiveFormId (form_id (all_forms fp ! 0)) st
      else st)"

text \<open>The callback given to \<^verbatim>\<open>useSubscribable\<close>.\<close>

definition subscription_callback :: "form_plugins \<Rightarrow> handler" where
  "subscription_callback fp st = setSingleActiveForm fp st"

text \<open>The effect of \<^verbatim>\<open>React.useEffect(..., [])\<close>, run once on mount.\<close>

definition mount_effect :: "form_plugins \<Rightarrow> handler" where
  "mount_effect fp st = setSingleActiveForm fp st"

text \<open>
  The render function. \<^verbatim>\<open>a && b\<close> with \<^verbatim>\<open>a\<close> false or undefined is \<open>Falsy\<close>; with
  \<^verbatim>\<open>a\<close> the empty string it is that string. JSX keeps white space that stands on one
  line with an expression, so \<^verbatim>\<open><> {children} </>\<close> has a one-space text on each side of
  the children; white space with a line break is dropped. The result of
  \<^verbatim>\<open>cms.plugins.all\<close> is an array, which is truthy also when it is empty, so
  \<^verbatim>\<open>formMetas && formMetas.map(...)\<close> is the mapped array.
\<close>

definition FormsView :: "cms \<Rightarrow> sidebar_context \<Rightarrow> 'c \<Rightarrow> ui_state \<Rightarrow> 'c element" where
  "FormsView c ctx children st =
     (let forms = all_forms (formPlugins c);
          isMultiform = (length forms > 1);
          activeForm = find_form (formPlugins c) (activeFormId st);
          isEditing = (activeForm \<noteq> None)
      in if length forms = 0 then Fragment [Text '' '', Children children, Text '' '']
         else if isMultiform \<and> activeForm = None
         then FormList isEditing forms setActiveFormId
         else
           Fragment
             [case activeForm of
                None \<Rightarrow> Falsy
              | Some af \<Rightarrow>
                  FormWrapper isEditing isMultiform
                    [if isMultiform then MultiformFormHeaderEl af setActiveFormId else Falsy,
                     if isMultiform then Falsy
                     else if label af = '''' then Text (label af)
                     else FormHeaderEl af,
                     ElArray (map (\<lambda>meta. KeyedFragment (name meta) [MetaComponent (Component meta)])
                                (formMetas c)),
                     FormBuilder af (setFormIsPristine ctx)]])"

subsection \<open>The styled panel FormWrapper\<close>

text \<open>
  A style sheet is a list of rules in source order; the selector \<open>''&''\<close> is the element
  itself, \<open>''> *''\<close> its children. A value is literal text or a reference to keyframes.
\<close>

type_synonym keyframes = "(string \<times> (string \<times> string) list) list"

datatype css_value = Lit string | AnimationOf keyframes

record css_rule =
  selector :: string
  declarations :: "(string \<times> css_value) list"

definition FormAnimationKeyframes :: keyframes where
  "FormAnimationKeyframes =
     [(''0%'', [(''transform'', ''translate3d( 100%, 0, 0 )'')]),
      (''100%'', [(''transform'', ''translate3d( 0, 0, 0 )'')])]"

record FormWrapperProps =
  isEditing :: bool
  isMultiform :: bool

text \<open>
  The template of \<^verbatim>\<open>styled.div<FormWrapperProps>\<close>. The interpolation
  \<^verbatim>\<open>p.isEditing && css`...`\<close> adds its rule when the flag is set and nothing otherwise.
\<close>

definition FormWrapper_css :: "FormWrapperProps \<Rightarrow> css_rule list" where
  "FormWrapper_css p =
     [\<lparr>selector = ''&'',
       declarations =
         [(''flex'', Lit ''1 1 0''),
          (''display'', Lit ''flex''),
          (''flex-direction'', Lit ''column''),
          (''flex-wrap'', Lit ''nowrap''),
          (''overflow'', Lit ''hidden''),
          (''height'', Lit ''100%''),
          (''width'', Lit ''100%''),
          (''position'', Lit ''relative''),
          (''background'', Lit ''white'')]\<rparr>,
      \<lparr>selector = ''> *'',
       declarations = [(''transform'', Lit ''translate3d(100%, 0, 0)'')]\<rparr>]
     @ (if isEditing p
        then [\<lparr>selector = ''> *'',
               declarations =
                 [(''transform'', Lit ''none''),
                  (''animation-name'', AnimationOf FormAnimationKeyframes),
                  (''animation-duration'', Lit ''150ms''),
                  (''animation-delay'', Lit ''0''),
                  (''animation-iteration-count'', Lit ''1''),
                  (''animation-timing-function'', Lit ''ease-out'')]\<rparr>]
        else [])"

subsection \<open>The headers\<close>

text \<open>The \<^verbatim>\<open>onClick\<close> of the close button of the multi-form header.\<close>

definition MultiformFormHeader_onClick :: "form \<Rightarrow> (string \<Rightarrow> handler) \<Rightarrow> handler" where
  "MultiformFormHeader_onClick activeForm setActive st =
     (let state = getState (finalForm activeForm)
      in if invalid state = True
         then alerts_error ''Cannot navigate away from an invalid form.'' st
         else setActive '''' st)"

definition MultiformFormHeader :: "form \<Rightarrow> (string \<Rightarrow> handler) \<Rightarrow> 'c element" where
  "MultiformFormHeader activeForm setActive =
     Div ''pt-18''
       [Button
          (''relative group text-left w-full bg-white hover:bg-gray-50 py-2 border-t border-b shadow-sm''
             @ [CHR 0x0A] @ ''   border-gray-100 px-6 -mt-px'')
          (MultiformFormHeader_onClick activeForm setActive)
          [Div ''flex items-center justify-between gap-3 text-xs tracking-wide font-medium text-gray-700 group-hover:text-blue-400 uppercase max-w-form mx-auto''
             [Text (label activeForm),
              IoMdClose ''h-auto w-5 inline-block opacity-70 -mt-0.5 -mx-0.5'']]]"

definition FormHeader :: "sidebar_context \<Rightarrow> form \<Rightarrow> 'c element" where
  "FormHeader ctx activeForm =
     Div (''py-4 border-b border-gray-200 bg-white ''
            @ (if sidebarWidth ctx > navBreakpoint ctx then ''px-6'' else ''px-20''))
       [Div ''max-w-form mx-auto''
          [Span ''block text-xl mb-[6px] text-gray-700 font-medium leading-tight''
             [Text (label activeForm)],
           FormStatus (formIsPristine ctx)]]"

subsection \<open>Reading an element tree\<close>

text \<open>Every node of a tree, parents before children, children left to right.\<close>

fun nodes :: "'c element \<Rightarrow> 'c element list" where
  "nodes (Fragment es) = Fragment es # concat (map nodes es)"
| "nodes (KeyedFragment k es) = KeyedFragment k es # concat (map nodes es)"
| "nodes (ElArray es) = ElArray es # concat (map nodes es)"
| "nodes (Div cl es) = Div cl es # concat (map nodes es)"
| "nodes (Span cl es) = Span cl es # concat (map nodes es)"
| "nodes (Button cl h es) = Button cl h es # concat (map nodes es)"
| "nodes (FormWrapper e m es) = FormWrapper e m es # concat (map nodes es)"
| "nodes e = [e]"

text \<open>The JSX tag of a node; the empty string for what is not an element.\<close>

fun tag :: "'c element \<Rightarrow> string" where
  "tag (Children c) = ''''"
| "tag Falsy = ''''"
| "tag (Text s) = ''''"
| "tag (Fragment es) = ''React.Fragment''"
| "tag (KeyedFragment k es) = ''React.Fragment''"
| "tag (ElArray es) = ''''"
| "tag (Div cl es) = ''div''"
| "tag (Span cl es) = ''span''"
| "tag (Button cl h es) = ''button''"
| "tag (FormList e fs s) = ''FormList''"
| "tag (FormWrapper e m es) = ''FormWrapper''"
| "tag (MultiformFormHeaderEl f s) = ''MultiformFormHeader''"
| "tag (FormHeaderEl f) = ''FormHeader''"
| "tag (MetaComponent k) = ''meta.Component''"
| "tag (FormBuilder f p) = ''FormBuilder''"
| "tag (FormStatus p) = ''FormStatus''"
| "tag (IoMdClose cl) = ''IoMdClose''"

text \<open>The tags a tree holds, in document order.\<close>

definition tags :: "'c element \<Rightarrow> string list" where
  "tags e = filter (\<lambda>t. t \<noteq> '''') (map tag (nodes e))"

definition renders :: "'c element \<Rightarrow> string \<Rightarrow> bool" where
  "renders e t = (t \<in> set (tags e))"

text \<open>The meta components a tree holds, in document order.\<close>

fun meta_of :: "'c element \<Rightarrow> component list" where
  "meta_of (MetaComponent k) = [k]"
| "meta_of e = []"

definition meta_components :: "'c element \<Rightarrow> component list" where
  "meta_components e = concat (map meta_of (nodes e))"

text \<open>The texts and the pristine flags of the status displays a tree holds.\<close>

fun text_of :: "'c element \<Rightarrow> string list" where
  "text_of (Text s) = [s]"
| "text_of e = []"

fun status_of :: "'c element \<Rightarrow> bool list" where
  "status_of (FormStatus p) = [p]"
| "status_of e = []"

definition texts :: "'c element \<Rightarrow> string list" where
  "texts e = concat (map text_of (nodes e))"

definition statuses :: "'c element \<Rightarrow> bool list" where
  "statuses e = concat (map status_of (nodes e))"

text \<open>The click handlers of the buttons a tree holds.\<close>

fun onClick_of :: "'c element \<Rightarrow> handler list" where
  "onClick_of (Button cl h es) = [h]"
| "onClick_of e = []"

definition onClicks :: "'c element \<Rightarrow> handler list" where
  "onClicks e = concat (map onClick_of (nodes e))"

subsection \<open>Reading a style sheet\<close>

text \<open>
  The declarations that reach the children of the styled element, in source order, and
  the value the cascade gives a property: all these rules have one selector, so the last
  declaration of a property wins.
\<close>

definition child_declarations :: "css_rule list \<Rightarrow> (string \<times> css_value) list" where
  "child_declarations rs = concat (map declarations (filter (\<lambda>r. selector r = ''> *'') rs))"

definition computed :: "(string \<times> css_value) list \<Rightarrow> string \<Rightarrow> css_value option" where
  "computed ds prop = map_of (rev ds) prop"

subsection \<open>Concrete registries and forms\<close>

text \<open>
  Modelled from the spec: the registry class is not in this file; the spec says it exposes
  enumerate and find-by-id. This registry enumerates a list of forms and finds the first
  form with the id asked for. The theorems below hold for any registry; this one supplies
  their concrete instances.
\<close>

definition registry_of :: "form list \<Rightarrow> form_plugins" where
  "registry_of fs =
     \<lparr>all_forms = fs, find_form = (\<lambda>i. List.find (\<lambda>f. form_id f = i) fs)\<rparr>"

definition cms_of :: "form list \<Rightarrow> form_meta_plugin list \<Rightarrow> cms" where
  "cms_of fs ms = \<lparr>formPlugins = registry_of fs, formMetas = ms\<rparr>"

definition form_a :: form where
  "form_a = \<lparr>form_id = ''a.md'', label = ''Post A'',
              finalForm = \<lparr>getState = \<lparr>invalid = False\<rparr>\<rparr>\<rparr>"

definition form_b :: form where
  "form_b = \<lparr>form_id = ''b.md'', label = ''Post B'',
              finalForm = \<lparr>getState = \<lparr>invalid = True\<rparr>\<rparr>\<rparr>"

definition meta_x :: form_meta_plugin where
  "meta_x = \<lparr>name = ''x'', Component = ''X''\<rparr>"

definition meta_y :: form_meta_plugin where
  "meta_y = \<lparr>name = ''y'', Component = ''Y''\<rparr>"

definition ctx0 :: sidebar_context where
  "ctx0 = \<lparr>sidebarWidth = 400, navBreakpoint = 1000, formIsPristine = True,
            setFormIsPristine = (\<lambda>b st. st)\<rparr>"

definition state_of :: "string \<Rightarrow> ui_state" where
  "state_of i = \<lparr>activeFormId = i, alerts = []\<rparr>"

section \<open>Properties\<close>

subsection \<open>Trees built from the meta plugins\<close>

lemma meta_components_map:
  "concat (map meta_of (concat (map
      (nodes \<circ> (\<lambda>meta. KeyedFragment (name meta) [MetaComponent (Component meta)])) ms)))
   = map Component ms"
  by (induction ms) simp_all

subsection \<open>The render states of FormsView, the effects and the headers\<close>

text \<open>
  Claim C1. When the forms registry is empty, FormsView returns the fragment that holds
  its children prop between the two one-space texts of the JSX source, whatever the active
  form id is; the tree holds no form list, no form wrapper and no form builder.
\<close>

theorem FormsView_no_forms:
  assumes "all_forms (formPlugins c) = []"
  shows "FormsView c ctx children st = Fragment [Text '' '', Children children, Text '' '']
       \<and> tags (FormsView c ctx children st) = [''React.Fragment'']
       \<and> \<not> renders (FormsView c ctx children st) ''FormList''
       \<and> \<not> renders (FormsView c ctx children st) ''FormWrapper''
       \<and> \<not> renders (FormsView c ctx children st) ''FormBuilder''"
  using assms by (simp add: FormsView_def Let_def tags_def renders_def)

theorem FormsView_no_forms_witness:
  "all_forms (formPlugins (cms_of [] [meta_x])) = []
   \<and> FormsView (cms_of [] [meta_x]) ctx0 ''kids'' (state_of ''a.md'')
       = Fragment [Text '' '', Children ''kids'', Text '' '']
   \<and> \<not> renders (FormsView (cms_of [] [meta_x]) ctx0 ''kids'' (state_of ''a.md'')) ''FormList''
   \<and> \<not> renders (FormsView (cms_of [] [meta_x]) ctx0 ''kids'' (state_of ''a.md'')) ''FormBuilder''"
proof -
  have h: "all_forms (formPlugins (cms_of [] [meta_x])) = []"
    by (simp add: cms_of_def registry_of_def)
  from FormsView_no_forms [OF h, of ctx0 "''kids''" "state_of ''a.md''"] h
  show ?thesis by blast
qed

text \<open>
  Claim C2. With more than one registered form and an active form id for which the
  registry finds no form, FormsView returns the FormList element, given the full list of
  forms and the setter of the active form id.
\<close>

theorem FormsView_form_list:
  assumes "length (all_forms (formPlugins c)) > 1"
    and "find_form (formPlugins c) (activeFormId st) = None"
  shows "FormsView c ctx children st = FormList False (all_forms (formPlugins c)) setActiveFormId"
  using assms by (auto simp add: FormsView_def Let_def)

theorem FormsView_form_list_witness:
  "length (all_forms (formPlugins (cms_of [form_a, form_b] []))) > 1
   \<and> find_form (formPlugins (cms_of [form_a, form_b] [])) (activeFormId (state_of ''c.md'')) = None
   \<and> FormsView (cms_of [form_a, form_b] []) ctx0 ''kids'' (state_of ''c.md'')
       = FormList False [form_a, form_b] setActiveFormId"
proof -
  have h1: "length (all_forms (formPlugins (cms_of [form_a, form_b] []))) > 1"
    by (simp add: cms_of_def registry_of_def)
  have h2: "find_form (formPlugins (cms_of [form_a, form_b] [])) (activeFormId (state_of ''c.md'')) = None"
    by (simp add: cms_of_def registry_of_def state_of_def form_a_def form_b_def)
  from FormsView_form_list [OF h1 h2, of ctx0 "''kids''"] h1 h2
  show ?thesis by (simp add: cms_of_def registry_of_def)
qed

text \<open>
  Claim C3. When the registry holds exactly one form, the mount effect and the
  subscription callback each set the active form id to the id of that form.
\<close>

theorem setSingleActiveForm_single:
  assumes "length (all_forms fp) = 1"
  shows "mount_effect fp st = st\<lparr>activeFormId := form_id (all_forms fp ! 0)\<rparr>
       \<and> subscription_callback fp st = st\<lparr>activeFormId := form_id (all_forms fp ! 0)\<rparr>
       \<and> activeFormId (mount_effect fp st) = form_id (all_forms fp ! 0)
       \<and> activeFormId (subscription_callback fp st) = form_id (all_forms fp ! 0)"
  using assms
  by (simp add: mount_effect_def subscription_callback_def setSingleActiveForm_def
      setActiveFormId_def)

theorem setSingleActiveForm_single_witness:
  "length (all_forms (registry_of [form_b])) = 1
   \<and> activeFormId (mount_effect (registry_of [form_b]) (state_of '''')) = ''b.md''
   \<and> activeFormId (subscription_callback (registry_of [form_b]) (state_of ''a.md'')) = ''b.md''"
proof -
  have h: "length (all_forms (registry_of [form_b])) = 1"
    by (simp add: registry_of_def)
  from setSingleActiveForm_single [OF h, of "state_of ''''"]
    setSingleActiveForm_single [OF h, of "state_of ''a.md''"] h
  show ?thesis by (simp add: registry_of_def form_b_def)
qed

text \<open>
  Claim C4. The button of the multi-form header carries one click handler. Clicked on
  an invalid form, it dispatches the error alert and leaves the active form id as it was;
  otherwise it sets the active form id to the empty string and dispatches nothing.
\<close>

theorem MultiformFormHeader_close:
  "onClicks (MultiformFormHeader activeForm setActiveFormId :: 'c element)
     = [MultiformFormHeader_onClick activeForm setActiveFormId]
   \<and> (invalid (getState (finalForm activeForm)) \<longrightarrow>
        MultiformFormHeader_onClick activeForm setActiveFormId st
          = st\<lparr>alerts := alerts st @ [AlertError ''Cannot navigate away from an invalid form.'']\<rparr>
        \<and> activeFormId (MultiformFormHeader_onClick activeForm setActiveFormId st)
          = activeFormId st)
   \<and> (\<not> invalid (getState (finalForm activeForm)) \<longrightarrow>
        MultiformFormHeader_onClick activeForm setActiveFormId st = st\<lparr>activeFormId := ''''\<rparr>
        \<and> activeFormId (MultiformFormHeader_onClick activeForm setActiveFormId st) = ''''
        \<and> alerts (MultiformFormHeader_onClick activeForm setActiveFormId st) = alerts st)"
  by (simp add: onClicks_def MultiformFormHeader_def MultiformFormHeader_onClick_def
      alerts_error_def setActiveFormId_def)

theorem MultiformFormHeader_close_witness:
  "invalid (getState (finalForm form_b))
   \<and> MultiformFormHeader_onClick form_b setActiveFormId (state_of ''b.md'')
       = \<lparr>activeFormId = ''b.md'',
          alerts = [AlertError ''Cannot navigate away from an invalid form.'']\<rparr>
   \<and> \<not> invalid (getState (finalForm form_a))
   \<and> MultiformFormHeader_onClick form_a setActiveFormId (state_of ''a.md'')
       = \<lparr>activeFormId = '''', alerts = []\<rparr>"
proof -
  have hb: "invalid (getState (finalForm form_b))" by (simp add: form_b_def)
  have ha: "\<not> invalid (getState (finalForm form_a))" by (simp add: form_a_def)
  from MultiformFormHeader_close [of form_b "state_of ''b.md''"]
    MultiformFormHeader_close [of form_a "state_of ''a.md''"] ha hb
  show ?thesis by (auto simp add: state_of_def)
qed

text \<open>
  Claim C5 as stated fails for the multi-form header: it shows the label of the form and
  no status display.
\<close>

theorem MultiformFormHeader_no_status_counterexample:
  "texts (MultiformFormHeader form_a setActiveFormId :: string element) = [''Post A'']
   \<and> statuses (MultiformFormHeader form_a setActiveFormId :: string element) = []
   \<and> \<not> renders (MultiformFormHeader form_a setActiveFormId :: string element) ''FormStatus''"
  by (simp add: MultiformFormHeader_def texts_def statuses_def renders_def tags_def form_a_def)

text \<open>
  Claim C5, amended. Both headers show the label of the active form. The single-form
  header also shows the status display, fed with the pristine flag of the sidebar context;
  the multi-form header shows the label and the close icon and no status display.
\<close>

theorem headers_display:
  "texts (FormHeader ctx activeForm :: 'c element) = [label activeForm]
   \<and> statuses (FormHeader ctx activeForm :: 'c element) = [formIsPristine ctx]
   \<and> texts (MultiformFormHeader activeForm setActive :: 'c element) = [label activeForm]
   \<and> statuses (MultiformFormHeader activeForm setActive :: 'c element) = []
   \<and> tags (MultiformFormHeader activeForm setActive :: 'c element)
       = [''div'', ''button'', ''div'', ''IoMdClose'']
   \<and> tags (FormHeader ctx activeForm :: 'c element)
       = [''div'', ''div'', ''span'', ''FormStatus'']"
  by (simp add: FormHeader_def MultiformFormHeader_def texts_def statuses_def tags_def)

text \<open>
  Claim C6 as stated fails on the first render with one registered form: the registry is
  not empty, the active form id is the empty string, and FormsView returns a fragment with
  nothing in it, not the form list.
\<close>

theorem FormsView_empty_id_counterexample:
  "all_forms (formPlugins (cms_of [form_a] [])) \<noteq> []
   \<and> activeFormId (state_of initial_activeFormId) = ''''
   \<and> FormsView (cms_of [form_a] []) ctx0 ''kids'' (state_of initial_activeFormId)
       = Fragment [Falsy]
   \<and> \<not> renders (FormsView (cms_of [form_a] []) ctx0 ''kids'' (state_of initial_activeFormId))
         ''FormList''"
  by (simp add: FormsView_def Let_def cms_of_def registry_of_def state_of_def initial_activeFormId_def
      form_a_def renders_def tags_def)

text \<open>
  Claim C6, amended. For a registry that is not empty and finds no form under the empty
  id, FormsView with the empty active form id shows no editing surface, and it shows the
  form list exactly when more than one form is registered; with exactly one form it
  returns a fragment with nothing in it.
\<close>

theorem FormsView_empty_id:
  assumes "all_forms (formPlugins c) \<noteq> []"
    and "activeFormId st = ''''"
    and "find_form (formPlugins c) '''' = None"
  shows "\<not> renders (FormsView c ctx children st) ''FormBuilder''
       \<and> \<not> renders (FormsView c ctx children st) ''FormWrapper''
       \<and> (renders (FormsView c ctx children st) ''FormList''
            \<longleftrightarrow> length (all_forms (formPlugins c)) > 1)
       \<and> (length (all_forms (formPlugins c)) > 1 \<longrightarrow>
            FormsView c ctx children st
              = FormList False (all_forms (formPlugins c)) setActiveFormId)
       \<and> (length (all_forms (formPlugins c)) = 1 \<longrightarrow>
            FormsView c ctx children st = Fragment [Falsy])"
  using assms by (auto simp add: FormsView_def Let_def renders_def tags_def)

theorem FormsView_empty_id_witness:
  "all_forms (formPlugins (cms_of [form_a, form_b] [])) \<noteq> []
   \<and> activeFormId (state_of '''') = ''''
   \<and> find_form (formPlugins (cms_of [form_a, form_b] [])) '''' = None
   \<and> length (all_forms (formPlugins (cms_of [form_a, form_b] []))) > 1
   \<and> FormsView (cms_of [form_a, form_b] []) ctx0 ''kids'' (state_of '''')
       = FormList False [form_a, form_b] setActiveFormId
   \<and> \<not> renders (FormsView (cms_of [form_a, form_b] []) ctx0 ''kids'' (state_of ''''))
         ''FormBuilder''"
proof -
  have h1: "all_forms (formPlugins (cms_of [form_a, form_b] [])) \<noteq> []"
    by (simp add: cms_of_def registry_of_def)
  have h2: "activeFormId (state_of '''') = ''''"
    by (simp add: state_of_def)
  have h3: "find_form (formPlugins (cms_of [form_a, form_b] [])) '''' = None"
    by (simp add: cms_of_def registry_of_def form_a_def form_b_def)
  have h4: "length (all_forms (formPlugins (cms_of [form_a, form_b] []))) > 1"
    by (simp add: cms_of_def registry_of_def)
  from FormsView_empty_id [OF h1 h2 h3, of ctx0 "''kids''"] h1 h2 h3 h4
  show ?thesis by (auto simp add: cms_of_def registry_of_def)
qed

text \<open>
  Claim C7. In the editor state (the registry is not empty and finds the active form)
  the third child of the form wrapper is the array with one keyed fragment per form meta
  plugin, in the order the plugin registry returned them, and the meta components of the
  whole tree are the components of these plugins in that order, each once.
\<close>

theorem FormsView_meta_order:
  assumes "all_forms (formPlugins c) \<noteq> []"
    and "find_form (formPlugins c) (activeFormId st) = Some af"
  shows "(\<exists>h1 h2.
           FormsView c ctx children st
             = Fragment
                 [FormWrapper True (length (all_forms (formPlugins c)) > 1)
                    [h1, h2,
                     ElArray (map (\<lambda>meta. KeyedFragment (name meta)
                                            [MetaComponent (Component meta)])
                                (formMetas c)),
                     FormBuilder af (setFormIsPristine ctx)]])
       \<and> meta_components (FormsView c ctx children st) = map Component (formMetas c)"
  using assms
  by (simp add: FormsView_def Let_def meta_components_def meta_components_map)

theorem FormsView_meta_order_witness:
  "all_forms (formPlugins (cms_of [form_a, form_b] [meta_y, meta_x])) \<noteq> []
   \<and> find_form (formPlugins (cms_of [form_a, form_b] [meta_y, meta_x]))
        (activeFormId (state_of ''b.md'')) = Some form_b
   \<and> meta_components
        (FormsView (cms_of [form_a, form_b] [meta_y, meta_x]) ctx0 ''kids''
           (state_of ''b.md''))
       = [''Y'', ''X'']"
proof -
  have h1: "all_forms (formPlugins (cms_of [form_a, form_b] [meta_y, meta_x])) \<noteq> []"
    by (simp add: cms_of_def registry_of_def)
  have h2: "find_form (formPlugins (cms_of [form_a, form_b] [meta_y, meta_x]))
        (activeFormId (state_of ''b.md'')) = Some form_b"
    by (simp add: cms_of_def registry_of_def state_of_def form_a_def form_b_def)
  from FormsView_meta_order [OF h1 h2, of ctx0 "''kids''"] h1 h2
  show ?thesis by (auto simp add: cms_of_def meta_x_def meta_y_def)
qed

text \<open>
  Claim C8. The children of the FormWrapper panel get the slide-in keyframes as their
  animation name exactly when the prop isEditing is true. When it is false, their only
  declaration is the off-screen transform and no animation property is set.
\<close>

theorem FormWrapper_animation:
  "(computed (child_declarations (FormWrapper_css p)) ''animation-name''
      = Some (AnimationOf FormAnimationKeyframes)) = isEditing p
   \<and> (isEditing p \<longrightarrow>
        computed (child_declarations (FormWrapper_css p)) ''transform'' = Some (Lit ''none''))
   \<and> (\<not> isEditing p \<longrightarrow>
        child_declarations (FormWrapper_css p)
          = [(''transform'', Lit ''translate3d(100%, 0, 0)'')]
        \<and> computed (child_declarations (FormWrapper_css p)) ''transform''
          = Some (Lit ''translate3d(100%, 0, 0)'')
        \<and> computed (child_declarations (FormWrapper_css p)) ''animation-name'' = None)"
  by (simp add: FormWrapper_css_def child_declarations_def computed_def)

theorem FormWrapper_animation_witness:
  "isEditing \<lparr>isEditing = True, isMultiform = False\<rparr>
   \<and> computed (child_declarations (FormWrapper_css \<lparr>isEditing = True, isMultiform = False\<rparr>))
        ''animation-name'' = Some (AnimationOf FormAnimationKeyframes)
   \<and> \<not> isEditing \<lparr>isEditing = False, isMultiform = True\<rparr>
   \<and> child_declarations (FormWrapper_css \<lparr>isEditing = False, isMultiform = True\<rparr>)
       = [(''transform'', Lit ''translate3d(100%, 0, 0)'')]"
  using FormWrapper_animation [of "\<lparr>isEditing = True, isMultiform = False\<rparr>"]
    FormWrapper_animation [of "\<lparr>isEditing = False, isMultiform = True\<rparr>"]
  by simp

text \<open>
  Claim C9. When the registry does not hold exactly one form, the mount effect and the
  subscription callback leave the state, and so the active form id, as it was.
\<close>

theorem setSingleActiveForm_frame:
  assumes "length (all_forms fp) \<noteq> 1"
  shows "mount_effect fp st = st \<and> subscription_callback fp st = st"
  using assms
  by (simp add: mount_effect_def subscription_callback_def setSingleActiveForm_def)

theorem setSingleActiveForm_frame_witness:
  "length (all_forms (registry_of [])) \<noteq> 1
   \<and> mount_effect (registry_of []) (state_of ''a.md'') = state_of ''a.md''
   \<and> subscription_callback (registry_of []) (state_of ''a.md'') = state_of ''a.md''
   \<and> length (all_forms (registry_of [form_a, form_b])) \<noteq> 1
   \<and> mount_effect (registry_of [form_a, form_b]) (state_of '''') = state_of ''''
   \<and> subscription_callback (registry_of [form_a, form_b]) (state_of ''b.md'')
       = state_of ''b.md''"
proof -
  have h0: "length (all_forms (registry_of [])) \<noteq> 1"
    by (simp add: registry_of_def)
  have h2: "length (all_forms (registry_of [form_a, form_b])) \<noteq> 1"
    by (simp add: registry_of_def)
  from setSingleActiveForm_frame [OF h0, of "state_of ''a.md''"]
    setSingleActiveForm_frame [OF h2, of "state_of ''''"]
    setSingleActiveForm_frame [OF h2, of "state_of ''b.md''"] h0 h2
  show ?thesis by blast
qed

text \<open>
  Claim C10. When the registry finds no form for the active form id, FormsView shows no
  form builder and no form wrapper; with exactly one registered form it returns a fragment
  with nothing in it: no list, no header, no editor.
\<close>

theorem FormsView_editor_only_if_found:
  assumes "find_form (formPlugins c) (activeFormId st) = None"
  shows "\<not> renders (FormsView c ctx children st) ''FormBuilder''
       \<and> \<not> renders (FormsView c ctx children st) ''FormWrapper''
       \<and> (length (all_forms (formPlugins c)) = 1 \<longrightarrow>
            FormsView c ctx children st = Fragment [Falsy]
            \<and> tags (FormsView c ctx children st) = [''React.Fragment''])"
  using assms by (auto simp add: FormsView_def Let_def renders_def tags_def)

theorem FormsView_editor_only_if_found_witness:
  "find_form (formPlugins (cms_of [form_a] [meta_x])) (activeFormId (state_of ''b.md'')) = None
   \<and> length (all_forms (formPlugins (cms_of [form_a] [meta_x]))) = 1
   \<and> FormsView (cms_of [form_a] [meta_x]) ctx0 ''kids'' (state_of ''b.md'') = Fragment [Falsy]
   \<and> \<not> renders (FormsView (cms_of [form_a] [meta_x]) ctx0 ''kids'' (state_of ''b.md''))
         ''FormBuilder''"
proof -
  have h1: "find_form (formPlugins (cms_of [form_a] [meta_x])) (activeFormId (state_of ''b.md''))
      = None"
    by (simp add: cms_of_def registry_of_def state_of_def form_a_def)
  have h2: "length (all_forms (formPlugins (cms_of [form_a] [meta_x]))) = 1"
    by (simp add: cms_of_def registry_of_def)
  from FormsView_editor_only_if_found [OF h1, of ctx0 "''kids''"] h1 h2
  show ?thesis by blast
qed

text \<open>
  The frame property of C9 is one of each call, not of a run. Forms register one by one, as
  the comment above \<^verbatim>\<open>setSingleActiveForm\<close> in the source says: the callback that runs when
  the first form is alone selects it, the callback after the second registration changes
  nothing, and the view then shows the editor of the first form among two.
\<close>

lemma selection_survives_second_registration:
  "tags (FormsView (cms_of [form_a, form_b] []) ctx0 ''kids''
           (subscription_callback (registry_of [form_a, form_b])
              (subscription_callback (registry_of [form_a]) (state_of initial_activeFormId))))
   = [''React.Fragment'', ''FormWrapper'', ''MultiformFormHeader'', ''FormBuilder'']"
  by (simp add: FormsView_def Let_def tags_def subscription_callback_def
      setSingleActiveForm_def setActiveFormId_def cms_of_def registry_of_def state_of_def
      initial_activeFormId_def form_a_def form_b_def)

end
